theory Spec2Isabelle
  imports Complex_Main
begin

section \<open>JavaScript numbers\<close>

text \<open>
  The valuation module computes with the JavaScript type \<^verbatim>\<open>number\<close>. The model keeps
  the values a \<^verbatim>\<open>number\<close> can take that the module can tell apart: a finite value, the
  two infinities and NaN. Finite values are reals and the operators \<open>+\<close>, \<open>-\<close>, \<open>*\<close>
  and \<open>/\<close> are exact on them, so the rounding of IEEE-754 doubles and overflow to an
  infinity are not part of these operators, and zero has no sign (it behaves as
  \<^verbatim>\<open>+0\<close>). What the operators do with zero divisors, infinities and NaN follows
  ECMAScript. The sum that the guardrail of the DCF engine takes is rounded as the
  machine rounds it, with \<open>double_sum\<close> below: there the rounding decides what the
  guardrail guarantees.
\<close>

datatype number = Fin real | PInf | NInf | NaN

instantiation number :: "{uminus, plus, minus, times, inverse, ord}"
begin

fun uminus_number :: "number \<Rightarrow> number" where
  "uminus_number (Fin x) = Fin (- x)"
| "uminus_number PInf = NInf"
| "uminus_number NInf = PInf"
| "uminus_number NaN = NaN"

fun plus_number :: "number \<Rightarrow> number \<Rightarrow> number" where
  "plus_number (Fin x) (Fin y) = Fin (x + y)"
| "plus_number NaN _ = NaN"
| "plus_number _ NaN = NaN"
| "plus_number PInf NInf = NaN"
| "plus_number NInf PInf = NaN"
| "plus_number PInf _ = PInf"
| "plus_number _ PInf = PInf"
| "plus_number NInf _ = NInf"
| "plus_number _ NInf = NInf"

definition minus_number :: "number \<Rightarrow> number \<Rightarrow> number" where
  "minus_number a b = a + (- b)"

fun times_number :: "number \<Rightarrow> number \<Rightarrow> number" where
  "times_number (Fin x) (Fin y) = Fin (x * y)"
| "times_number NaN _ = NaN"
| "times_number _ NaN = NaN"
| "times_number PInf (Fin y) = (if y = 0 then NaN else if 0 < y then PInf else NInf)"
| "times_number NInf (Fin y) = (if y = 0 then NaN else if 0 < y then NInf else PInf)"
| "times_number (Fin x) PInf = (if x = 0 then NaN else if 0 < x then PInf else NInf)"
| "times_number (Fin x) NInf = (if x = 0 then NaN else if 0 < x then NInf else PInf)"
| "times_number PInf PInf = PInf"
| "times_number PInf NInf = NInf"
| "times_number NInf PInf = NInf"
| "times_number NInf NInf = PInf"

fun divide_number :: "number \<Rightarrow> number \<Rightarrow> number" where
  "divide_number (Fin x) (Fin y) =
     (if y = 0 then (if x = 0 then NaN else if 0 < x then PInf else NInf)
      else Fin (x / y))"
| "divide_number NaN _ = NaN"
| "divide_number _ NaN = NaN"
| "divide_number PInf (Fin y) = (if 0 \<le> y then PInf else NInf)"
| "divide_number NInf (Fin y) = (if 0 \<le> y then NInf else PInf)"
| "divide_number (Fin x) PInf = Fin 0"
| "divide_number (Fin x) NInf = Fin 0"
| "divide_number PInf PInf = NaN"
| "divide_number PInf NInf = NaN"
| "divide_number NInf PInf = NaN"
| "divide_number NInf NInf = NaN"

fun inverse_number :: "number \<Rightarrow> number" where
  "inverse_number (Fin x) = (if x = 0 then PInf else Fin (1 / x))"
| "inverse_number PInf = Fin 0"
| "inverse_number NInf = Fin 0"
| "inverse_number NaN = NaN"

fun less_number :: "number \<Rightarrow> number \<Rightarrow> bool" where
  "less_number (Fin x) (Fin y) = (x < y)"
| "less_number NaN _ = False"
| "less_number _ NaN = False"
| "less_number _ NInf = False"
| "less_number PInf _ = False"
| "less_number NInf _ = True"
| "less_number _ PInf = True"

definition less_eq_number :: "number \<Rightarrow> number \<Rightarrow> bool" where
  "less_eq_number a b = (a < b \<or> (a = b \<and> a \<noteq> NaN))"

instance ..

end

text \<open>\<^verbatim>\<open>Math.max(a, b)\<close>: NaN when either argument is NaN.\<close>

fun Math_max :: "number \<Rightarrow> number \<Rightarrow> number" where
  "Math_max NaN _ = NaN"
| "Math_max _ NaN = NaN"
| "Math_max a b = (if a < b then b else a)"

text \<open>
  \<^verbatim>\<open>Math.pow(base, e)\<close> for an integer exponent \<open>e\<close>: 1 when \<open>e\<close> is 0 (also for a NaN
  base), a zero base gives 0 for a positive and \<^verbatim>\<open>Infinity\<close> for a negative exponent.
\<close>

fun Math_pow :: "number \<Rightarrow> int \<Rightarrow> number" where
  "Math_pow (Fin x) e =
     (if e = 0 then Fin 1
      else if x = 0 then (if 0 < e then Fin 0 else PInf)
      else if 0 < e then Fin (x ^ nat e) else Fin (1 / x ^ nat (- e)))"
| "Math_pow NaN e = (if e = 0 then Fin 1 else NaN)"
| "Math_pow PInf e = (if e = 0 then Fin 1 else if 0 < e then PInf else Fin 0)"
| "Math_pow NInf e =
     (if e = 0 then Fin 1
      else if 0 < e then (if odd e then NInf else PInf) else Fin 0)"

text \<open>
  \<^verbatim>\<open>Number(x.toFixed(d))\<close>: the number denoted by the decimal string that \<^verbatim>\<open>toFixed\<close>
  prints. \<^verbatim>\<open>toFixed\<close> takes the sign off, picks the integer \<open>n\<close> with \<open>n / 10^d\<close>
  nearest to the magnitude (the larger \<open>n\<close> on a tie) and prints \<open>n / 10^d\<close>; it
  prints \<^verbatim>\<open>NaN\<close> and the infinities by name, which \<^verbatim>\<open>Number\<close> reads back. From
  \<open>10^21\<close> upwards \<^verbatim>\<open>toFixed\<close> prints the number itself; a double of that size is an
  integer, which rounding to \<open>d\<close> decimals leaves as it is, so the model has no case
  for it.
\<close>

definition round_half_up :: "real \<Rightarrow> nat \<Rightarrow> real" where
  "round_half_up x d = of_int \<lfloor>x * 10 ^ d + 1 / 2\<rfloor> / 10 ^ d"

fun Number_toFixed :: "number \<Rightarrow> nat \<Rightarrow> number" where
  "Number_toFixed (Fin x) d =
     (if x < 0 then Fin (- round_half_up (- x) d) else Fin (round_half_up x d))"
| "Number_toFixed PInf d = PInf"
| "Number_toFixed NInf d = NInf"
| "Number_toFixed NaN d = NaN"

text \<open>Truthiness of a number: every number but 0 and NaN.\<close>

fun truthy :: "number \<Rightarrow> bool" where
  "truthy (Fin x) = (x \<noteq> 0)"
| "truthy NaN = False"
| "truthy _ = True"

text \<open>A finite number with at most \<open>d\<close> decimal places.\<close>

fun has_decimals :: "nat \<Rightarrow> number \<Rightarrow> bool" where
  "has_decimals d (Fin x) = (of_int \<lfloor>x * 10 ^ d\<rfloor> = x * 10 ^ d)"
| "has_decimals d _ = False"

section \<open>Rounding to double precision\<close>

text \<open>
  A double has a significand of 53 bits. \<open>binade x\<close> is the exponent \<open>e\<close> with
  \<open>2^e \<le> \<bar>x\<bar> < 2^(e+1)\<close>, computed from the bit length of the integer part of \<open>\<bar>x\<bar>\<close>
  or, below 1, of its reciprocal.
\<close>

fun bit_length :: "nat \<Rightarrow> nat" where
  "bit_length n = (if n = 0 then 0 else Suc (bit_length (n div 2)))"

declare bit_length.simps [simp del]

definition pow2 :: "int \<Rightarrow> real" where
  "pow2 e = (if 0 \<le> e then 2 ^ nat e else 1 / 2 ^ nat (- e))"

definition binade :: "real \<Rightarrow> int" where
  "binade x =
     (if 1 \<le> \<bar>x\<bar> then int (bit_length (nat \<lfloor>\<bar>x\<bar>\<rfloor>)) - 1
      else - int (bit_length (nat (\<lceil>1 / \<bar>x\<bar>\<rceil> - 1))))"

text \<open>The nearest integer, the even one of the two on a tie.\<close>

definition round_half_even :: "real \<Rightarrow> int" where
  "round_half_even r =
     (let n = \<lfloor>r\<rfloor>; f = r - of_int n
      in if f < 1 / 2 then n else if 1 / 2 < f then n + 1 else if even n then n else n + 1)"

text \<open>
  The double nearest to a real, ties to even: the real is rounded to a multiple of the
  unit in the last place of its binade, \<open>2^(e - 52)\<close>, and of \<open>2^(-1074)\<close> in the
  subnormal range; a result of magnitude \<open>2^1024\<close> is an infinity. A numeric literal
  of the source denotes the double nearest to its decimal value.
\<close>

definition double_round :: "real \<Rightarrow> number" where
  "double_round x =
     (if x = 0 then Fin 0
      else
        (let u = pow2 (max (binade x - 52) (- 1074));
             r = of_int (round_half_even (x / u)) * u
         in if pow2 1024 \<le> \<bar>r\<bar> then (if 0 < x then PInf else NInf) else Fin r))"

text \<open>The sum of two doubles as the machine computes it.\<close>

fun double_sum :: "number \<Rightarrow> number \<Rightarrow> number" where
  "double_sum (Fin x) (Fin y) = double_round (x + y)"
| "double_sum a b = a + b"

section \<open>Data model\<close>

text \<open>
  The interfaces of the type declarations, one record each; a nested object type is a
  record of its own. An optional or nullable number is a \<open>number option\<close>: \<open>None\<close>
  stands for both \<^verbatim>\<open>undefined\<close> and \<^verbatim>\<open>null\<close>, which the code never tells apart.
\<close>

record Meta =
  ticker :: string
  source :: string
  generated_at_utc :: string
  cache_used :: bool

record UserInputs =
  rf :: number
  erp :: number
  forecast_years :: int
  fcf_growth :: number
  terminal_g :: number
  beta_override :: "number option"
  kd_override :: "number option"

record CapitalStructure =
  ticker :: string
  equity_market_value_E :: number
  debt_book_value_D :: number
  cash_and_equivalents :: number
  net_debt :: number
  shares_outstanding :: number
  beta :: number
  "notes" :: "string list"
  limitations :: "string list"
  warnings :: "string list"

record Weights =
  w_e :: number
  w_d :: number

record Components =
  equity_market_value_E :: number
  debt_book_value_D :: number

record WACCResult =
  rf :: number
  erp :: number
  beta_used :: number
  cost_of_equity_ke :: number
  tax_rate_effective :: number
  cost_of_debt_kd :: number
  weights :: Weights
  wacc :: number
  warnings :: "string list"
  limitations :: "string list"
  components :: Components

record CashFlowEntry =
  period :: string
  cfo :: number
  capex :: number

record FCFEntry = CashFlowEntry +
  fcf :: number

record FCFData =
  "method" :: string
  fcf_history :: "FCFEntry list"
  fcf0_latest :: number
  warnings :: "string list"
  limitations :: "string list"

record Assumptions =
  "method" :: string
  wacc :: number
  terminal_g :: number
  forecast_years :: int
  fcf_growth :: number

record DCFResult =
  assumptions :: Assumptions
  pv_forecast :: number
  pv_terminal :: number
  enterprise_value_ev :: number
  equity_value :: number
  value_per_share :: number
  upside_vs_spot :: "number option"
  warnings :: "string list"
  limitations :: "string list"

record Scenarios =
  base :: DCFResult
  bull :: DCFResult
  bear :: DCFResult

record Sensitivity =
  wacc_values :: "number list"
  g_values :: "number list"
  value_per_share_matrix :: "number list list"

record ScenarioSensitivity =
  scenarios :: Scenarios
  sensitivity :: Sensitivity
  warnings :: "string list"
  limitations :: "string list"

record ContextInputs =
  ticker :: string
  rf :: number
  erp :: number
  forecast_years :: int
  fcf_growth :: number
  terminal_g :: number

record AnalystContext =
  meta :: Meta
  inputs :: ContextInputs
  capital_structure :: CapitalStructure
  wacc :: WACCResult
  fcf :: FCFData
  valuation :: DCFResult
  sensitivity :: ScenarioSensitivity
  limitations :: "string list"
  warnings :: "string list"

section \<open>The data bundle\<close>

text \<open>
  The functions read the module constant \<^verbatim>\<open>MOCK_MSFT_BUNDLE\<close>. In the model each
  function that reads it takes the bundle as its first argument \<open>b\<close>; the program is
  the instance \<open>b = MOCK_MSFT_BUNDLE\<close>.
\<close>

record Market =
  marketCap :: number
  sharesOutstanding :: number
  beta :: number
  price :: number

record Financials =
  totalDebt :: number
  cash :: number
  interestExpense :: number
  preTaxIncome :: number
  incomeTax :: number

record Cashflow =
  history :: "CashFlowEntry list"

record Bundle =
  market :: Market
  financials :: Financials
  cashflow :: Cashflow

definition MOCK_MSFT_BUNDLE :: Bundle where
  "MOCK_MSFT_BUNDLE =
     \<lparr>Bundle.market =
        \<lparr>Market.marketCap = Fin 3150000000000,
         Market.sharesOutstanding = Fin 7430000000,
         Market.beta = Fin 0.89,
         Market.price = Fin 425.00\<rparr>,
      Bundle.financials =
        \<lparr>Financials.totalDebt = Fin 106000000000,
         Financials.cash = Fin 80000000000,
         Financials.interestExpense = Fin 3000000000,
         Financials.preTaxIncome = Fin 100000000000,
         Financials.incomeTax = Fin 18000000000\<rparr>,
      Bundle.cashflow =
        \<lparr>Cashflow.history =
           [\<lparr>CashFlowEntry.period = ''2023'',
             CashFlowEntry.cfo = Fin 87582000000,
             CashFlowEntry.capex = Fin 28107000000\<rparr>,
            \<lparr>CashFlowEntry.period = ''2024 (TTM)'',
             CashFlowEntry.cfo = Fin 110000000000,
             CashFlowEntry.capex = Fin 45000000000\<rparr>]\<rparr>\<rparr>"

section \<open>Tool 4.2: the capital structure\<close>

definition extract_capital_structure :: "Bundle \<Rightarrow> CapitalStructure" where
  "extract_capital_structure b =
     (let equity_E = Market.marketCap (Bundle.market b);
          debt_D = Financials.totalDebt (Bundle.financials b);
          cash = Financials.cash (Bundle.financials b);
          net_debt = debt_D - cash
      in \<lparr>CapitalStructure.ticker = ''MSFT'',
          CapitalStructure.equity_market_value_E = equity_E,
          CapitalStructure.debt_book_value_D = debt_D,
          CapitalStructure.cash_and_equivalents = cash,
          CapitalStructure.net_debt = net_debt,
          CapitalStructure.shares_outstanding = Market.sharesOutstanding (Bundle.market b),
          CapitalStructure.beta = Market.beta (Bundle.market b),
          CapitalStructure.notes = [''Book debt used as proxy for market value of debt''],
          CapitalStructure.limitations =
            [''Reliance on most recent reported balance sheet data''],
          CapitalStructure.warnings = []\<rparr>)"

section \<open>Tool 4.3: the WACC estimate\<close>

text \<open>
  The local constants of \<^verbatim>\<open>estimate_wacc\<close>, each as the function of the arguments that
  its line computes. \<^verbatim>\<open>a ?? b\<close> is \<open>a\<close> unless \<open>a\<close> is null or undefined.
\<close>

definition beta_of :: "CapitalStructure \<Rightarrow> UserInputs \<Rightarrow> number" where
  "beta_of cap_struct inputs =
     (case UserInputs.beta_override inputs of
        Some v \<Rightarrow> v
      | None \<Rightarrow> CapitalStructure.beta cap_struct)"
  for cap_struct inputs

definition ke_of :: "CapitalStructure \<Rightarrow> UserInputs \<Rightarrow> number" where
  "ke_of cap_struct inputs =
     UserInputs.rf inputs + (beta_of cap_struct inputs * UserInputs.erp inputs)"
  for cap_struct inputs

definition t_effective_of :: "Bundle \<Rightarrow> number" where
  "t_effective_of b =
     Financials.incomeTax (Bundle.financials b) / Financials.preTaxIncome (Bundle.financials b)"

text \<open>Lines 76 and 79: the cost of debt, then the guardrail on whatever line 76 gave.\<close>

definition kd_pre_tax_of :: "Bundle \<Rightarrow> CapitalStructure \<Rightarrow> UserInputs \<Rightarrow> number" where
  "kd_pre_tax_of b cap_struct inputs =
     (let kd_pre_tax =
            (case UserInputs.kd_override inputs of
               Some v \<Rightarrow> v
             | None \<Rightarrow>
                 Financials.interestExpense (Bundle.financials b)
                   / CapitalStructure.debt_book_value_D cap_struct)
      in if kd_pre_tax < Fin 0.01 then Fin 0.04 else kd_pre_tax)"
  for cap_struct inputs

definition kd_after_tax_of :: "Bundle \<Rightarrow> CapitalStructure \<Rightarrow> UserInputs \<Rightarrow> number" where
  "kd_after_tax_of b cap_struct inputs =
     kd_pre_tax_of b cap_struct inputs * (Fin 1 - t_effective_of b)"
  for cap_struct inputs

definition V_of :: "CapitalStructure \<Rightarrow> number" where
  "V_of cap_struct =
     CapitalStructure.equity_market_value_E cap_struct
       + CapitalStructure.debt_book_value_D cap_struct"

definition w_e_of :: "CapitalStructure \<Rightarrow> number" where
  "w_e_of cap_struct = CapitalStructure.equity_market_value_E cap_struct / V_of cap_struct"

definition w_d_of :: "CapitalStructure \<Rightarrow> number" where
  "w_d_of cap_struct = CapitalStructure.debt_book_value_D cap_struct / V_of cap_struct"

definition wacc_of :: "Bundle \<Rightarrow> CapitalStructure \<Rightarrow> UserInputs \<Rightarrow> number" where
  "wacc_of b cap_struct inputs =
     (ke_of cap_struct inputs * w_e_of cap_struct)
       + (kd_after_tax_of b cap_struct inputs * w_d_of cap_struct)"
  for cap_struct inputs

definition estimate_wacc :: "Bundle \<Rightarrow> CapitalStructure \<Rightarrow> UserInputs \<Rightarrow> WACCResult" where
  "estimate_wacc b cap_struct inputs =
     \<lparr>WACCResult.rf = UserInputs.rf inputs,
      WACCResult.erp = UserInputs.erp inputs,
      WACCResult.beta_used = beta_of cap_struct inputs,
      WACCResult.cost_of_equity_ke = Number_toFixed (ke_of cap_struct inputs) 5,
      WACCResult.tax_rate_effective = Number_toFixed (t_effective_of b) 4,
      WACCResult.cost_of_debt_kd = Number_toFixed (kd_pre_tax_of b cap_struct inputs) 4,
      WACCResult.weights =
        \<lparr>Weights.w_e = Number_toFixed (w_e_of cap_struct) 4,
         Weights.w_d = Number_toFixed (w_d_of cap_struct) 4\<rparr>,
      WACCResult.wacc = Number_toFixed (wacc_of b cap_struct inputs) 5,
      WACCResult.warnings =
        (case UserInputs.beta_override inputs of
           Some v \<Rightarrow> if truthy v then [''User provided Beta override''] else []
         | None \<Rightarrow> []),
      WACCResult.limitations = [''Kd estimated via Interest Expense / Book Debt proxy''],
      WACCResult.components =
        \<lparr>Components.equity_market_value_E =
           CapitalStructure.equity_market_value_E cap_struct,
         Components.debt_book_value_D = CapitalStructure.debt_book_value_D cap_struct\<rparr>\<rparr>"
  for cap_struct inputs

section \<open>Tool 4.4: the free cash flow proxy\<close>

text \<open>
  Reading \<^verbatim>\<open>latest.fcf\<close> throws a TypeError when the history is empty, since
  \<^verbatim>\<open>history[-1]\<close> is undefined.
\<close>

datatype error = TypeError

definition with_fcf :: "CashFlowEntry \<Rightarrow> FCFEntry" where
  "with_fcf h =
     \<lparr>CashFlowEntry.period = CashFlowEntry.period h,
      CashFlowEntry.cfo = CashFlowEntry.cfo h,
      CashFlowEntry.capex = CashFlowEntry.capex h,
      FCFEntry.fcf = CashFlowEntry.cfo h - CashFlowEntry.capex h\<rparr>"

definition compute_fcf_proxy :: "Bundle \<Rightarrow> error + FCFData" where
  "compute_fcf_proxy b =
     (let history = map with_fcf (Cashflow.history (Bundle.cashflow b))
      in if history = [] then Inl TypeError
         else
           (let latest = history ! (length history - 1)
            in Inr \<lparr>FCFData.method = ''CFO_minus_Capex_proxy_for_FCFF'',
                    FCFData.fcf_history = history,
                    FCFData.fcf0_latest = FCFEntry.fcf latest,
                    FCFData.warnings = [],
                    FCFData.limitations =
                      [''FCFF approx via CFO - Capex; ignores net interest tax shield adjustments'']\<rparr>))"

section \<open>Tool 4.5: the FCFF DCF engine\<close>

text \<open>
  The forecast loop \<^verbatim>\<open>for (let i = 1; i <= years; i++)\<close> with its two accumulators; it
  returns \<open>(current_fcf, pv_forecast)\<close> as they stand when the loop ends. The horizon
  \<open>years\<close> is an integer, as the data model has it.
\<close>

function forecast_loop ::
  "int \<Rightarrow> int \<Rightarrow> number \<Rightarrow> number \<Rightarrow> number \<Rightarrow> number \<Rightarrow> number \<times> number" where
  "forecast_loop i years growth_rate wacc current_fcf pv_forecast =
     (if i \<le> years then
        (let current_fcf' = current_fcf * (Fin 1 + growth_rate);
             pv_forecast' = pv_forecast + current_fcf' / Math_pow (Fin 1 + wacc) i
         in forecast_loop (i + 1) years growth_rate wacc current_fcf' pv_forecast')
      else (current_fcf, pv_forecast))"
  for i years growth_rate wacc current_fcf pv_forecast
  by pat_completeness auto
termination
  by (relation "measure (\<lambda>(i, years, _). nat (years + 1 - i))") auto

declare forecast_loop.simps [simp del]

text \<open>
  The guardrail of line 153 and the terminal value of line 154. The guardrail adds the
  double that the literal \<^verbatim>\<open>0.005\<close> denotes, and the sum is rounded to a double.
\<close>

definition valid_wacc :: "number \<Rightarrow> number \<Rightarrow> number" where
  "valid_wacc wacc terminal_g = Math_max wacc (double_sum terminal_g (double_round 0.005))"
  for wacc terminal_g

definition tv :: "number \<Rightarrow> number \<Rightarrow> number \<Rightarrow> number" where
  "tv fcf_final wacc terminal_g =
     (fcf_final * (Fin 1 + terminal_g)) / (valid_wacc wacc terminal_g - terminal_g)"
  for fcf_final wacc terminal_g

definition WACC_ADJUSTED :: string where
  "WACC_ADJUSTED = ''WACC was adjusted to be higher than terminal growth for stability''"

definition run_fcff_dcf ::
  "number \<Rightarrow> number \<Rightarrow> number \<Rightarrow> int \<Rightarrow> number \<Rightarrow> number \<Rightarrow> number \<Rightarrow> number option
     \<Rightarrow> DCFResult" where
  "run_fcff_dcf fcf0 wacc terminal_g years growth_rate net_debt shares spot_price =
     (let (fcf_final, pv_forecast) = forecast_loop 1 years growth_rate wacc fcf0 (Fin 0);
          pv_terminal = tv fcf_final wacc terminal_g / Math_pow (Fin 1 + wacc) years;
          ev = pv_forecast + pv_terminal;
          equity_val = ev - net_debt;
          val_per_share = equity_val / shares;
          upside = (case spot_price of
                      None \<Rightarrow> None
                    | Some spot \<Rightarrow>
                        if truthy spot then Some ((val_per_share - spot) / spot) else None)
      in \<lparr>DCFResult.assumptions =
            \<lparr>Assumptions.method = ''FCFF_DCF'',
             Assumptions.wacc = Number_toFixed wacc 4,
             Assumptions.terminal_g = terminal_g,
             Assumptions.forecast_years = years,
             Assumptions.fcf_growth = growth_rate\<rparr>,
          DCFResult.pv_forecast = pv_forecast,
          DCFResult.pv_terminal = pv_terminal,
          DCFResult.enterprise_value_ev = ev,
          DCFResult.equity_value = equity_val,
          DCFResult.value_per_share = val_per_share,
          DCFResult.upside_vs_spot = upside,
          DCFResult.warnings = (if wacc \<le> terminal_g then [WACC_ADJUSTED] else []),
          DCFResult.limitations = [''Standard 2-stage growth model'']\<rparr>)"
  for fcf0 wacc terminal_g years growth_rate net_debt shares spot_price

section \<open>Tool 4.6: scenarios and the sensitivity grid\<close>

text \<open>
  The two \<^verbatim>\<open>for ... of\<close> loops, each over the rest of its range with the array it
  pushes to.
\<close>

fun sensitivity_row ::
  "number \<Rightarrow> UserInputs \<Rightarrow> number \<Rightarrow> number \<Rightarrow> number \<Rightarrow> number list \<Rightarrow> number list
     \<Rightarrow> number list" where
  "sensitivity_row fcf0 base_inputs net_debt shares w [] row = row"
  for net_debt
| "sensitivity_row fcf0 base_inputs net_debt shares w (g # gs) row =
     (let res = run_fcff_dcf fcf0 w g (UserInputs.forecast_years base_inputs)
                  (UserInputs.fcf_growth base_inputs) net_debt shares None
      in sensitivity_row fcf0 base_inputs net_debt shares w gs
           (row @ [DCFResult.value_per_share res]))"
  for net_debt

fun sensitivity_matrix ::
  "number \<Rightarrow> UserInputs \<Rightarrow> number \<Rightarrow> number \<Rightarrow> number list \<Rightarrow> number list
     \<Rightarrow> number list list \<Rightarrow> number list list" where
  "sensitivity_matrix fcf0 base_inputs net_debt shares [] g_range matrix = matrix"
  for net_debt
| "sensitivity_matrix fcf0 base_inputs net_debt shares (w # ws) g_range matrix =
     sensitivity_matrix fcf0 base_inputs net_debt shares ws g_range
       (matrix @ [sensitivity_row fcf0 base_inputs net_debt shares w g_range []])"
  for net_debt

definition wacc_range_of :: "number \<Rightarrow> number list" where
  "wacc_range_of base_wacc =
     [base_wacc - Fin 0.01, base_wacc - Fin 0.005, base_wacc,
      base_wacc + Fin 0.005, base_wacc + Fin 0.01]"

definition g_range_of :: "UserInputs \<Rightarrow> number list" where
  "g_range_of base_inputs =
     [UserInputs.terminal_g base_inputs - Fin 0.005, UserInputs.terminal_g base_inputs,
      UserInputs.terminal_g base_inputs + Fin 0.005]"

definition run_scenarios_and_sensitivity ::
  "Bundle \<Rightarrow> number \<Rightarrow> number \<Rightarrow> UserInputs \<Rightarrow> number \<Rightarrow> number \<Rightarrow> ScenarioSensitivity" where
  "run_scenarios_and_sensitivity b fcf0 base_wacc base_inputs net_debt shares =
     (let spot = Market.price (Bundle.market b);
          base = run_fcff_dcf fcf0 base_wacc (UserInputs.terminal_g base_inputs)
                   (UserInputs.forecast_years base_inputs)
                   (UserInputs.fcf_growth base_inputs) net_debt shares (Some spot);
          bull = run_fcff_dcf fcf0 (Math_max (Fin 0.01) (base_wacc - Fin 0.01))
                   (UserInputs.terminal_g base_inputs)
                   (UserInputs.forecast_years base_inputs)
                   (UserInputs.fcf_growth base_inputs + Fin 0.02) net_debt shares (Some spot);
          bear = run_fcff_dcf fcf0 (base_wacc + Fin 0.01)
                   (UserInputs.terminal_g base_inputs)
                   (UserInputs.forecast_years base_inputs)
                   (UserInputs.fcf_growth base_inputs - Fin 0.02) net_debt shares (Some spot);
          wacc_range = wacc_range_of base_wacc;
          g_range = g_range_of base_inputs;
          matrix = sensitivity_matrix fcf0 base_inputs net_debt shares wacc_range g_range []
      in \<lparr>ScenarioSensitivity.scenarios =
            \<lparr>Scenarios.base = base, Scenarios.bull = bull, Scenarios.bear = bear\<rparr>,
          ScenarioSensitivity.sensitivity =
            \<lparr>Sensitivity.wacc_values = wacc_range,
             Sensitivity.g_values = g_range,
             Sensitivity.value_per_share_matrix = matrix\<rparr>,
          ScenarioSensitivity.warnings = [],
          ScenarioSensitivity.limitations = []\<rparr>)"
  for fcf0 net_debt

section \<open>Tool 4.7: the analyst context\<close>

text \<open>
  \<^verbatim>\<open>new Date().toISOString()\<close> reads the clock; the model takes the timestamp as the
  argument \<open>now\<close>.
\<close>

definition build_context_json ::
  "string \<Rightarrow> UserInputs \<Rightarrow> CapitalStructure \<Rightarrow> WACCResult \<Rightarrow> FCFData \<Rightarrow> ScenarioSensitivity
     \<Rightarrow> AnalystContext" where
  "build_context_json now inputs cs wacc fcf sens =
     \<lparr>AnalystContext.meta =
        \<lparr>Meta.ticker = ''MSFT'',
         Meta.source = ''yfinance (simulated)'',
         Meta.generated_at_utc = now,
         Meta.cache_used = True\<rparr>,
      AnalystContext.inputs =
        \<lparr>ContextInputs.ticker = ''MSFT'',
         ContextInputs.rf = UserInputs.rf inputs,
         ContextInputs.erp = UserInputs.erp inputs,
         ContextInputs.forecast_years = UserInputs.forecast_years inputs,
         ContextInputs.fcf_growth = UserInputs.fcf_growth inputs,
         ContextInputs.terminal_g = UserInputs.terminal_g inputs\<rparr>,
      AnalystContext.capital_structure = cs,
      AnalystContext.wacc = wacc,
      AnalystContext.fcf = fcf,
      AnalystContext.valuation = Scenarios.base (ScenarioSensitivity.scenarios sens),
      AnalystContext.sensitivity = sens,
      AnalystContext.limitations =
        CapitalStructure.limitations cs @ WACCResult.limitations wacc
          @ FCFData.limitations fcf
          @ DCFResult.limitations (Scenarios.base (ScenarioSensitivity.scenarios sens)),
      AnalystContext.warnings = CapitalStructure.warnings cs @ WACCResult.warnings wacc\<rparr>"
  for inputs wacc fcf


section \<open>Sample inputs\<close>

text \<open>Concrete arguments at which the theorems below are instantiated.\<close>

definition sample_inputs :: UserInputs where
  "sample_inputs =
     \<lparr>UserInputs.rf = Fin 0.04, UserInputs.erp = Fin 0.05, UserInputs.forecast_years = 5,
      UserInputs.fcf_growth = Fin 0.08, UserInputs.terminal_g = Fin 0.03,
      UserInputs.beta_override = None, UserInputs.kd_override = None\<rparr>"

definition mock_capital_structure :: CapitalStructure where
  "mock_capital_structure = extract_capital_structure MOCK_MSFT_BUNDLE"

definition heavy_debt_structure :: CapitalStructure where
  "heavy_debt_structure =
     mock_capital_structure\<lparr>CapitalStructure.debt_book_value_D := Fin 1000000000000\<rparr>"

definition no_debt_structure :: CapitalStructure where
  "no_debt_structure =
     mock_capital_structure\<lparr>CapitalStructure.debt_book_value_D := Fin 0\<rparr>"

definition reversed_bundle :: Bundle where
  "reversed_bundle =
     MOCK_MSFT_BUNDLE
       \<lparr>Bundle.cashflow :=
          \<lparr>Cashflow.history = rev (Cashflow.history (Bundle.cashflow MOCK_MSFT_BUNDLE))\<rparr>\<rparr>"

definition kd_override_inputs :: UserInputs where
  "kd_override_inputs = sample_inputs\<lparr>UserInputs.kd_override := Some (Fin 0.05)\<rparr>"

definition unrounded_rf_inputs :: UserInputs where
  "unrounded_rf_inputs = sample_inputs\<lparr>UserInputs.rf := Fin 0.0412345678\<rparr>"

text \<open>The finite numbers.\<close>

fun finite_number :: "number \<Rightarrow> bool" where
  "finite_number (Fin x) = True"
| "finite_number _ = False"

section \<open>Arithmetic on finite numbers\<close>

lemma minus_Fin [simp]: "Fin x - Fin y = Fin (x - y)"
  by (simp add: minus_number_def)

lemma less_eq_Fin [simp]: "(Fin x \<le> Fin y) = (x \<le> y)"
  by (auto simp: less_eq_number_def)

lemma Math_max_Fin [simp]: "Math_max (Fin x) (Fin y) = Fin (max x y)"
  by (simp add: max_def)

lemma less_eq_not_less: "(a :: number) \<le> b \<Longrightarrow> \<not> b < a"
  by (cases a; cases b) (auto simp: less_eq_number_def)

text \<open>
  The binade brackets the magnitude, and the integer that \<open>round_half_even\<close> picks is
  a nearest one, the even one on a tie: \<open>double_round\<close> rounds to a nearest multiple of
  the unit in the last place.
\<close>

lemma bit_length_bounds:
  "0 < n \<Longrightarrow> 2 ^ (bit_length n - 1) \<le> n \<and> n < 2 ^ bit_length n"
proof (induction n rule: bit_length.induct)
  case (1 n)
  show ?case
  proof (cases "n div 2 = 0")
    case True
    with "1.prems" have "n = 1" by (simp add: div_eq_0_iff) 
    then show ?thesis by (simp add: bit_length.simps [of "Suc 0"] bit_length.simps [of 0])
  next
    case False
    then have pos: "0 < n div 2" by simp
    from "1.IH" [OF _ pos] "1.prems"
    have ih: "2 ^ (bit_length (n div 2) - 1) \<le> n div 2" "n div 2 < 2 ^ bit_length (n div 2)"
      by simp_all
    have bl: "bit_length n = Suc (bit_length (n div 2))"
      using "1.prems" by (simp add: bit_length.simps [of n])
    have blpos: "0 < bit_length (n div 2)"
      using pos by (simp add: bit_length.simps [of "n div 2"])
    then obtain m where m: "bit_length (n div 2) = Suc m" by (cases "bit_length (n div 2)") auto
    from ih m have "2 ^ m \<le> n div 2" "n div 2 < 2 * 2 ^ m" by simp_all
    then have "2 * 2 ^ m \<le> n" "n < 2 * (2 * 2 ^ m)" by linarith+
    then show ?thesis by (simp add: bl m)
  qed
qed

lemma pow2_pos: "0 < pow2 e"
  by (simp add: pow2_def)

lemma pow2_of_nat: "pow2 (int k) = 2 ^ k"
  by (simp add: pow2_def)

lemma pow2_neg_nat: "pow2 (- int k) = 1 / 2 ^ k"
  by (cases "k = 0") (simp_all add: pow2_def)

lemma binade_bounds:
  assumes "x \<noteq> 0"
  shows "pow2 (binade x) \<le> \<bar>x\<bar> \<and> \<bar>x\<bar> < pow2 (binade x + 1)"
proof (cases "1 \<le> \<bar>x\<bar>")
  case True
  define n where "n = nat \<lfloor>\<bar>x\<bar>\<rfloor>"
  have npos: "0 < n" using True by (simp add: n_def)
  have nle: "real n \<le> \<bar>x\<bar>" and xlt: "\<bar>x\<bar> < real n + 1"
    using True by (simp_all add: n_def)
  from bit_length_bounds [OF npos]
  have lo: "2 ^ (bit_length n - 1) \<le> n" and hi: "n < 2 ^ bit_length n" by simp_all
  have blpos: "0 < bit_length n" using npos by (simp add: bit_length.simps [of n])
  have e: "binade x = int (bit_length n - 1)"
    using True blpos by (simp add: binade_def n_def of_nat_diff)
  have e1: "binade x + 1 = int (bit_length n)"
    using e blpos by simp
  have "(2::real) ^ (bit_length n - 1) \<le> real n"
    using of_nat_mono [OF lo, where 'a = real] by simp
  then have a: "pow2 (binade x) \<le> \<bar>x\<bar>"
    unfolding e pow2_of_nat using nle by linarith
  have "n + 1 \<le> 2 ^ bit_length n" using hi by simp
  then have "real n + 1 \<le> 2 ^ bit_length n"
    using of_nat_mono [of "n + 1" "2 ^ bit_length n", where 'a = real] by simp
  then have b: "\<bar>x\<bar> < pow2 (binade x + 1)"
    unfolding e1 pow2_of_nat using xlt by linarith
  from a b show ?thesis ..
next
  case False
  define y where "y = 1 / \<bar>x\<bar>"
  have xpos: "0 < \<bar>x\<bar>" using assms by simp
  have y1: "1 < y" using False xpos by (simp add: y_def)
  define n where "n = nat (\<lceil>y\<rceil> - 1)"
  have cy: "2 \<le> \<lceil>y\<rceil>" using y1 by linarith
  then have npos: "0 < n" by (simp add: n_def)
  have rn: "real n = of_int \<lceil>y\<rceil> - 1"
    using cy by (simp add: n_def)
  have nlt: "real n < y" and yle: "y \<le> real n + 1"
    unfolding rn using ceiling_correct [of y] by linarith+
  from bit_length_bounds [OF npos]
  have lo: "2 ^ (bit_length n - 1) \<le> n" and hi: "n < 2 ^ bit_length n" by simp_all
  have blpos: "0 < bit_length n" using npos by (simp add: bit_length.simps [of n])
  have e: "binade x = - int (bit_length n)"
    using False by (simp add: binade_def n_def y_def)
  have e1: "binade x + 1 = - int (bit_length n - 1)"
    using e blpos by (simp add: of_nat_diff)
  have "n + 1 \<le> 2 ^ bit_length n" using hi by simp
  then have "real n + 1 \<le> 2 ^ bit_length n"
    using of_nat_mono [of "n + 1" "2 ^ bit_length n", where 'a = real] by simp
  then have "y \<le> 2 ^ bit_length n" using yle by linarith
  then have "1 / \<bar>x\<bar> \<le> 2 ^ bit_length n" by (simp add: y_def)
  then have a: "pow2 (binade x) \<le> \<bar>x\<bar>"
    unfolding e pow2_neg_nat using xpos by (simp add: field_simps)
  have "(2::real) ^ (bit_length n - 1) \<le> real n"
    using of_nat_mono [OF lo, where 'a = real] by simp
  then have "2 ^ (bit_length n - 1) < y" using nlt by linarith
  then have "2 ^ (bit_length n - 1) < 1 / \<bar>x\<bar>" by (simp add: y_def)
  then have b: "\<bar>x\<bar> < pow2 (binade x + 1)"
    unfolding e1 pow2_neg_nat using xpos by (simp add: field_simps)
  from a b show ?thesis ..
qed

lemma round_half_even_nearest: "\<bar>of_int (round_half_even r) - r\<bar> \<le> 1 / 2"
  unfolding round_half_even_def Let_def by (simp; linarith)

lemma round_half_even_tie:
  "r - of_int \<lfloor>r\<rfloor> = 1 / 2 \<Longrightarrow> even (round_half_even r)"
  by (simp add: round_half_even_def Let_def)

lemmas double_round_simps =
  double_round_def binade_def bit_length.simps pow2_def round_half_even_def Let_def

lemma double_round_literals:
  "double_round (1 / 200) = Fin (5764607523034235 / 1152921504606846976)"
  "double_round (3 / 100) = Fin (1080863910568919 / 36028797018963968)"
  "double_round (33 / 1000) = Fin (1188950301625811 / 36028797018963968)"
  "double_round (7 / 200) = Fin (1261007895663739 / 36028797018963968)"
  by (simp_all add: double_round_simps)

lemma double_round_not_NaN: "double_round x \<noteq> NaN"
  by (simp add: double_round_def Let_def)

lemma mock_structure_simps [simp]:
  "CapitalStructure.equity_market_value_E mock_capital_structure = Fin 3150000000000"
  "CapitalStructure.debt_book_value_D mock_capital_structure = Fin 106000000000"
  "CapitalStructure.beta mock_capital_structure = Fin 0.89"
  by (simp_all add: mock_capital_structure_def extract_capital_structure_def
        MOCK_MSFT_BUNDLE_def Let_def)

lemma mock_financials_simps [simp]:
  "Financials.interestExpense (Bundle.financials MOCK_MSFT_BUNDLE) = Fin 3000000000"
  "Financials.incomeTax (Bundle.financials MOCK_MSFT_BUNDLE) = Fin 18000000000"
  "Financials.preTaxIncome (Bundle.financials MOCK_MSFT_BUNDLE) = Fin 100000000000"
  by (simp_all add: MOCK_MSFT_BUNDLE_def)

section \<open>The DCF engine\<close>

text \<open>
  The loop on finite arguments, from period \<open>i\<close> on: the cash flow grows by the factor
  \<open>1 + g\<close> each period and each period's cash flow is discounted by \<open>(1 + w)^k\<close>.
\<close>

lemma forecast_loop_closed_form:
  "0 < i \<Longrightarrow> 1 + w \<noteq> 0 \<Longrightarrow>
   forecast_loop i n (Fin g) (Fin w) (Fin c) (Fin p) =
     (Fin (c * (1 + g) ^ nat (n + 1 - i)),
      Fin (p + (\<Sum>k = i..n. c * (1 + g) ^ nat (k + 1 - i) / (1 + w) ^ nat k)))"
proof (induction "nat (n + 1 - i)" arbitrary: i c p)
  case 0
  then have "\<not> i \<le> n" by simp
  then show ?case
    by (simp add: forecast_loop.simps [of i n])
next
  case (Suc m)
  then have le: "i \<le> n" by simp
  have m: "m = nat (n + 1 - (i + 1))" using Suc.hyps(2) by simp
  have pos: "0 < i + 1" using Suc.prems by simp
  have set: "{i..n} = insert i {i + 1..n}" using le by auto
  have nat_eq: "nat (n + 1 - i) = Suc (nat (n - i))" using le by simp
  have shift: "\<And>k. i + 1 \<le> k \<Longrightarrow> nat (k + 1 - i) = Suc (nat (k - i))" by simp
  have sum_eq: "(\<Sum>k = i + 1..n. c * (1 + g) * (1 + g) ^ nat (k + 1 - (i + 1)) / (1 + w) ^ nat k)
      = (\<Sum>k = i + 1..n. c * (1 + g) ^ nat (k + 1 - i) / (1 + w) ^ nat k)"
    by (rule sum.cong) (simp_all add: shift)
  show ?case
    using Suc.prems le sum_eq
    by (simp add: forecast_loop.simps [of i n] Let_def
          Suc.hyps(1) [OF m pos Suc.prems(2)] set nat_eq)
qed

lemma forecast_loop_one_year:
  "forecast_loop 1 1 (Fin 0) (Fin 0.10) (Fin 100) (Fin 0) = (Fin 100, Fin (100 / 1.10))"
  by (simp add: forecast_loop.simps[of 1 1] forecast_loop.simps[of 2 1] Let_def)

text \<open>
  C1. With fcf0 = 100, wacc = 0.10, terminal_g = 0.03, years = 1, growth_rate = 0,
  net_debt = 0, shares = 100 and no spot price, the forecast present value is 100/1.10
  (90.909 to three decimals), the terminal value is (100 * 1.03)/(0.10 - 0.03) (1471.43
  to two decimals) and 1337.66 after one period of discounting, enterprise value and
  equity value are 1428.57 and the value per share is 14.29, each to two decimals; there
  is no upside figure.
\<close>

theorem dcf_worked_example:
  "DCFResult.pv_forecast
     (run_fcff_dcf (Fin 100) (Fin 0.10) (Fin 0.03) 1 (Fin 0) (Fin 0) (Fin 100) None)
     = Fin (100 / 1.10)
   \<and> Number_toFixed (DCFResult.pv_forecast
        (run_fcff_dcf (Fin 100) (Fin 0.10) (Fin 0.03) 1 (Fin 0) (Fin 0) (Fin 100) None)) 3
     = Fin 90.909
   \<and> tv (Fin 100) (Fin 0.10) (Fin 0.03) = Fin ((100 * 1.03) / (0.10 - 0.03))
   \<and> Number_toFixed (tv (Fin 100) (Fin 0.10) (Fin 0.03)) 2 = Fin 1471.43
   \<and> DCFResult.pv_terminal
        (run_fcff_dcf (Fin 100) (Fin 0.10) (Fin 0.03) 1 (Fin 0) (Fin 0) (Fin 100) None)
     = Fin ((100 * 1.03) / (0.10 - 0.03) / 1.10)
   \<and> Number_toFixed (DCFResult.pv_terminal
        (run_fcff_dcf (Fin 100) (Fin 0.10) (Fin 0.03) 1 (Fin 0) (Fin 0) (Fin 100) None)) 2
     = Fin 1337.66
   \<and> Number_toFixed (DCFResult.enterprise_value_ev
        (run_fcff_dcf (Fin 100) (Fin 0.10) (Fin 0.03) 1 (Fin 0) (Fin 0) (Fin 100) None)) 2
     = Fin 1428.57
   \<and> DCFResult.equity_value
        (run_fcff_dcf (Fin 100) (Fin 0.10) (Fin 0.03) 1 (Fin 0) (Fin 0) (Fin 100) None)
     = DCFResult.enterprise_value_ev
        (run_fcff_dcf (Fin 100) (Fin 0.10) (Fin 0.03) 1 (Fin 0) (Fin 0) (Fin 100) None)
   \<and> Number_toFixed (DCFResult.value_per_share
        (run_fcff_dcf (Fin 100) (Fin 0.10) (Fin 0.03) 1 (Fin 0) (Fin 0) (Fin 100) None)) 2
     = Fin 14.29
   \<and> DCFResult.upside_vs_spot
        (run_fcff_dcf (Fin 100) (Fin 0.10) (Fin 0.03) 1 (Fin 0) (Fin 0) (Fin 100) None)
     = None"
  unfolding run_fcff_dcf_def forecast_loop_one_year
  by (simp add: Let_def round_half_up_def tv_def valid_wacc_def double_round_simps)

lemma Math_max_lower:
  "b \<noteq> NaN \<Longrightarrow> Fin w \<le> Math_max (Fin w) b \<and> b \<le> Math_max (Fin w) b"
  by (cases b) (auto simp: less_eq_number_def)

lemma double_sum_Fin_not_NaN: "double_sum (Fin x) (Fin y) \<noteq> NaN"
  by (simp add: double_round_not_NaN)

lemma guardrail_sum_at_3_percent:
  "double_sum (double_round 0.03) (double_round 0.005) =
     Fin (5044031582654955 / 144115188075855872)"
  by (simp add: double_round_literals) (simp add: double_round_simps)

text \<open>
  C2 (amended). The rate in the denominator of the terminal value is
  \<^verbatim>\<open>Math.max(wacc, terminal_g + 0.005)\<close> with the sum taken in double precision; for
  finite arguments it is at least wacc and at least that sum. The terminal value is
  discounted over the forecast years at the unmodified wacc, and the warning is emitted
  exactly when wacc is at most terminal_g. With wacc = terminal_g = 0.03 the rate is
  the double 0.034999999999999996, which is above terminal_g, so the denominator is
  positive (0.0049999999999999975), and the warning is emitted.
\<close>

theorem terminal_value_guardrail:
  "valid_wacc w g = Math_max w (double_sum g (double_round 0.005))
   \<and> Fin x \<le> valid_wacc (Fin x) (Fin y)
   \<and> double_sum (Fin y) (double_round 0.005) \<le> valid_wacc (Fin x) (Fin y)
   \<and> DCFResult.pv_terminal (run_fcff_dcf fcf0 w g years growth nd sh spot) =
       (fst (forecast_loop 1 years growth w fcf0 (Fin 0)) * (Fin 1 + g))
         / (valid_wacc w g - g)
         / Math_pow (Fin 1 + w) years
   \<and> DCFResult.warnings (run_fcff_dcf fcf0 w g years growth nd sh spot) =
       (if w \<le> g then [WACC_ADJUSTED] else [])
   \<and> (DCFResult.warnings (run_fcff_dcf fcf0 (Fin x) (Fin y) years growth nd sh spot) \<noteq> [])
       = (x \<le> y)
   \<and> valid_wacc (double_round 0.03) (double_round 0.03) =
       Fin (5044031582654955 / 144115188075855872)
   \<and> double_round 0.03 < valid_wacc (double_round 0.03) (double_round 0.03)
   \<and> valid_wacc (double_round 0.03) (double_round 0.03) - double_round 0.03 =
       Fin (720575940379279 / 144115188075855872)
   \<and> DCFResult.warnings
        (run_fcff_dcf fcf0 (double_round 0.03) (double_round 0.03) years growth nd sh spot) =
       [WACC_ADJUSTED]"
proof -
  have rate: "valid_wacc w g = Math_max w (double_sum g (double_round 0.005))"
    by (simp add: valid_wacc_def)
  have lower: "Fin x \<le> valid_wacc (Fin x) (Fin y)
      \<and> double_sum (Fin y) (double_round 0.005) \<le> valid_wacc (Fin x) (Fin y)"
    unfolding valid_wacc_def
    by (rule Math_max_lower) (simp add: double_round_literals double_round_not_NaN)
  have pv: "DCFResult.pv_terminal (run_fcff_dcf fcf0 w g years growth nd sh spot) =
       (fst (forecast_loop 1 years growth w fcf0 (Fin 0)) * (Fin 1 + g))
         / (valid_wacc w g - g)
         / Math_pow (Fin 1 + w) years"
    by (simp add: run_fcff_dcf_def tv_def Let_def split: prod.splits)
  have warn: "DCFResult.warnings (run_fcff_dcf fcf0 w' g' years growth nd sh spot) =
       (if w' \<le> g' then [WACC_ADJUSTED] else [])" for w' g'
    by (simp add: run_fcff_dcf_def Let_def split: prod.splits)
  have at3: "valid_wacc (double_round 0.03) (double_round 0.03) =
       Fin (5044031582654955 / 144115188075855872)"
    unfolding valid_wacc_def guardrail_sum_at_3_percent
    by (simp add: double_round_literals)
  have above: "double_round 0.03 < valid_wacc (double_round 0.03) (double_round 0.03)"
    unfolding at3 by (simp add: double_round_literals)
  have denom: "valid_wacc (double_round 0.03) (double_round 0.03) - double_round 0.03 =
       Fin (720575940379279 / 144115188075855872)"
    unfolding at3 by (simp add: double_round_literals)
  have warn3: "DCFResult.warnings
        (run_fcff_dcf fcf0 (double_round 0.03) (double_round 0.03) years growth nd sh spot) =
       [WACC_ADJUSTED]"
    by (simp add: warn double_round_literals)
  from rate lower pv warn [of w g] warn [of "Fin x" "Fin y"] at3 above denom warn3
  show ?thesis by simp
qed

text \<open>
  At wacc = 0.033 and terminal_g = 0.03 the rate is the rounded sum again, without a
  warning.
\<close>

theorem terminal_value_guardrail_witness:
  "valid_wacc (double_round 0.033) (double_round 0.03) =
     Fin (5044031582654955 / 144115188075855872)
   \<and> double_round 0.033 \<le> valid_wacc (double_round 0.033) (double_round 0.03)
   \<and> DCFResult.warnings
        (run_fcff_dcf (Fin 100) (double_round 0.033) (double_round 0.03) 1 (Fin 0) (Fin 0)
           (Fin 100) None) = []
   \<and> DCFResult.warnings
        (run_fcff_dcf (Fin 100) (double_round 0.03) (double_round 0.03) 1 (Fin 0) (Fin 0)
           (Fin 100) None) = [WACC_ADJUSTED]"
  using terminal_value_guardrail
          [of "double_round 0.033" "double_round 0.03"
              "1188950301625811 / 36028797018963968" "1080863910568919 / 36028797018963968"
              "Fin 100" 1 "Fin 0" "Fin 0" "Fin 100" None]
        guardrail_sum_at_3_percent
  by (simp add: double_round_literals)

text \<open>
  C2 as stated fails in double precision. At wacc = terminal_g = 0.03 the rate is below
  the double that \<^verbatim>\<open>0.035\<close> denotes, and below 0.035 itself, so it is not at least
  0.035. At wacc = terminal_g = 10^16 the sum rounds back to terminal_g: the rate is
  terminal_g, not more, the denominator is 0 and the terminal value of a cash flow of
  100 is infinite.
\<close>

theorem terminal_value_guardrail_counterexample:
  "valid_wacc (double_round 0.03) (double_round 0.03) < double_round 0.035
   \<and> valid_wacc (double_round 0.03) (double_round 0.03) < Fin 0.035
   \<and> \<not> (double_round 0.035 \<le> valid_wacc (double_round 0.03) (double_round 0.03))
   \<and> double_round 10000000000000000 = Fin 10000000000000000
   \<and> valid_wacc (Fin 10000000000000000) (Fin 10000000000000000) = Fin 10000000000000000
   \<and> valid_wacc (Fin 10000000000000000) (Fin 10000000000000000) - Fin 10000000000000000
       = Fin 0
   \<and> tv (Fin 100) (Fin 10000000000000000) (Fin 10000000000000000) = PInf"
proof -
  have at3: "valid_wacc (double_round 0.03) (double_round 0.03) =
       Fin (5044031582654955 / 144115188075855872)"
    unfolding valid_wacc_def guardrail_sum_at_3_percent
    by (simp add: double_round_literals)
  have big: "double_round 10000000000000000 = Fin 10000000000000000"
    by (simp add: double_round_simps)
  have sum: "double_sum (Fin 10000000000000000) (double_round 0.005) = Fin 10000000000000000"
    by (simp add: double_round_literals) (simp add: double_round_simps)
  have rate: "valid_wacc (Fin 10000000000000000) (Fin 10000000000000000)
      = Fin 10000000000000000"
    unfolding valid_wacc_def sum by simp
  have "tv (Fin 100) (Fin 10000000000000000) (Fin 10000000000000000) = PInf"
    unfolding tv_def rate by simp
  with at3 big rate show ?thesis
    by (simp add: double_round_literals)
qed

section \<open>The WACC estimate\<close>

text \<open>
  C3. Without a cost-of-debt override, when interest expense over book debt is below
  0.01 the returned cost_of_debt_kd is 0.04, and when it is at least 0.01 the returned
  cost_of_debt_kd is that ratio rounded to four decimals.
\<close>

theorem kd_floor_without_override:
  "UserInputs.kd_override inputs = None \<Longrightarrow>
   (Financials.interestExpense (Bundle.financials b) / CapitalStructure.debt_book_value_D cs
       < Fin 0.01 \<longrightarrow>
     WACCResult.cost_of_debt_kd (estimate_wacc b cs inputs) = Fin 0.04)
   \<and> (Fin 0.01 \<le>
        Financials.interestExpense (Bundle.financials b) / CapitalStructure.debt_book_value_D cs
       \<longrightarrow>
     WACCResult.cost_of_debt_kd (estimate_wacc b cs inputs) =
       Number_toFixed
         (Financials.interestExpense (Bundle.financials b)
            / CapitalStructure.debt_book_value_D cs) 4)"
  for inputs
  by (auto simp: estimate_wacc_def kd_pre_tax_of_def Let_def round_half_up_def
           dest: less_eq_not_less)

theorem kd_floor_without_override_witness:
  "UserInputs.kd_override sample_inputs = None
   \<and> Financials.interestExpense (Bundle.financials MOCK_MSFT_BUNDLE)
        / CapitalStructure.debt_book_value_D heavy_debt_structure < Fin 0.01
   \<and> WACCResult.cost_of_debt_kd
        (estimate_wacc MOCK_MSFT_BUNDLE heavy_debt_structure sample_inputs) = Fin 0.04
   \<and> Fin 0.01 \<le> Financials.interestExpense (Bundle.financials MOCK_MSFT_BUNDLE)
        / CapitalStructure.debt_book_value_D mock_capital_structure
   \<and> WACCResult.cost_of_debt_kd
        (estimate_wacc MOCK_MSFT_BUNDLE mock_capital_structure sample_inputs) = Fin 0.0283"
  using kd_floor_without_override [of sample_inputs MOCK_MSFT_BUNDLE heavy_debt_structure]
        kd_floor_without_override [of sample_inputs MOCK_MSFT_BUNDLE mock_capital_structure]
  by (simp add: sample_inputs_def heavy_debt_structure_def round_half_up_def)

text \<open>
  C10. A cost-of-debt override below 0.01 is replaced as well: the returned
  cost_of_debt_kd is 0.04.
\<close>

theorem kd_floor_on_override:
  "UserInputs.kd_override inputs = Some k \<Longrightarrow> k < Fin 0.01 \<Longrightarrow>
   WACCResult.cost_of_debt_kd (estimate_wacc b cs inputs) = Fin 0.04"
  for inputs
  by (simp add: estimate_wacc_def kd_pre_tax_of_def Let_def round_half_up_def)

theorem kd_floor_on_override_witness:
  "UserInputs.kd_override (sample_inputs\<lparr>UserInputs.kd_override := Some (Fin 0.005)\<rparr>)
     = Some (Fin 0.005)
   \<and> Fin 0.005 < Fin 0.01
   \<and> WACCResult.cost_of_debt_kd
        (estimate_wacc MOCK_MSFT_BUNDLE mock_capital_structure
           (sample_inputs\<lparr>UserInputs.kd_override := Some (Fin 0.005)\<rparr>)) = Fin 0.04"
  using kd_floor_on_override
          [of "sample_inputs\<lparr>UserInputs.kd_override := Some (Fin 0.005)\<rparr>" "Fin 0.005"
              MOCK_MSFT_BUNDLE mock_capital_structure]
  by simp

lemma convex_between:
  fixes k a we wd :: real
  assumes "0 \<le> we" "0 \<le> wd" "we + wd = 1"
  shows "min k a \<le> k * we + a * wd \<and> k * we + a * wd \<le> max k a"
proof -
  have we: "we = 1 - wd" using assms by simp
  have 1: "k * we + a * wd - k = wd * (a - k)" unfolding we by (simp add: algebra_simps)
  have 2: "a - (k * we + a * wd) = we * (a - k)" using assms(3) 
    by (simp add: algebra_simps) (metis distrib_left mult.right_neutral)
  show ?thesis
  proof (cases "k \<le> a")
    case True
    then have "0 \<le> wd * (a - k)" "0 \<le> we * (a - k)" using assms by simp_all
    with 1 2 True show ?thesis by (simp add: min_def max_def)
  next
    case False
    then have "wd * (a - k) \<le> 0" "we * (a - k) \<le> 0" using assms
      by (simp_all add: mult_nonneg_nonpos)
    with 1 2 False show ?thesis by (simp add: min_def max_def)
  qed
qed

lemma convex_strictly_between:
  fixes k a we wd :: real
  assumes "0 < we" "0 < wd" "we + wd = 1" "k \<noteq> a"
  shows "min k a < k * we + a * wd \<and> k * we + a * wd < max k a"
proof -
  have we: "we = 1 - wd" using assms by simp
  have 1: "k * we + a * wd - k = wd * (a - k)" unfolding we by (simp add: algebra_simps)
  have 2: "a - (k * we + a * wd) = we * (a - k)" using assms(3) 
    by (simp add: algebra_simps) (metis distrib_left mult.right_neutral)
  show ?thesis
  proof (cases "k < a")
    case True
    then have "0 < wd * (a - k)" "0 < we * (a - k)" using assms by simp_all
    with 1 2 True show ?thesis by (simp add: min_def max_def)
  next
    case False
    then have "a < k" using assms by simp
    then have "wd * (a - k) < 0" "we * (a - k) < 0" using assms
      by (simp_all add: mult_pos_neg)
    with 1 2 \<open>a < k\<close> show ?thesis by (simp add: min_def max_def)
  qed
qed

lemma weights_Fin:
  assumes "CapitalStructure.equity_market_value_E cs = Fin e"
    and "CapitalStructure.debt_book_value_D cs = Fin d" and "e + d \<noteq> 0"
  shows "w_e_of cs = Fin (e / (e + d))" and "w_d_of cs = Fin (d / (e + d))"
  using assms by (simp_all add: w_e_of_def w_d_of_def V_of_def)

text \<open>
  C4 (amended). When equity and debt are finite, the cost of equity and the after-tax
  cost of debt are finite, and both weights are finite, lie in [0,1] and sum to 1, the
  weights are E/(E+D) and D/(E+D), the weighted average ke * w_e + kd_after_tax * w_d
  is what the estimator rounds to five decimals and returns as wacc, and the weighted
  average, taken exactly, lies between the after-tax cost of debt and the cost of
  equity, both ends included; it lies strictly between them when both weights are
  positive and the two costs differ.
\<close>

theorem wacc_weighted_average:
  fixes inputs :: UserInputs
  assumes "CapitalStructure.equity_market_value_E cs = Fin e"
    and "CapitalStructure.debt_book_value_D cs = Fin d"
    and "w_e_of cs = Fin we" and "w_d_of cs = Fin wd"
    and "ke_of cs inputs = Fin k" and "kd_after_tax_of b cs inputs = Fin a"
    and "0 \<le> we" and "we \<le> 1" and "0 \<le> wd" and "wd \<le> 1" and "we + wd = 1"
  shows "we = e / (e + d) \<and> wd = d / (e + d)
    \<and> wacc_of b cs inputs = Fin (k * we + a * wd)
    \<and> WACCResult.wacc (estimate_wacc b cs inputs) = Number_toFixed (Fin (k * we + a * wd)) 5
    \<and> min a k \<le> k * we + a * wd \<and> k * we + a * wd \<le> max a k
    \<and> (0 < we \<and> 0 < wd \<and> k \<noteq> a \<longrightarrow>
          min a k < k * we + a * wd \<and> k * we + a * wd < max a k)"
proof -
  have nz: "e + d \<noteq> 0"
    using assms(1-3) by (auto simp: w_e_of_def V_of_def split: if_splits)
  have ws: "we = e / (e + d) \<and> wd = d / (e + d)"
    using weights_Fin [OF assms(1) assms(2) nz] assms(3,4) by simp
  have w: "wacc_of b cs inputs = Fin (k * we + a * wd)"
    using assms(3-6) by (simp add: wacc_of_def)
  have r: "WACCResult.wacc (estimate_wacc b cs inputs) = Number_toFixed (Fin (k * we + a * wd)) 5"
    unfolding estimate_wacc_def w[symmetric] by simp
  have weak: "min a k \<le> k * we + a * wd \<and> k * we + a * wd \<le> max a k"
    using convex_between [OF assms(7) assms(9) assms(11), of k a]
    by (simp add: min.commute max.commute)
  have strict: "0 < we \<and> 0 < wd \<and> k \<noteq> a \<longrightarrow>
      min a k < k * we + a * wd \<and> k * we + a * wd < max a k"
    using convex_strictly_between [of we wd k a] assms(11)
    by (simp add: min.commute max.commute)
  from ws w r weak strict show ?thesis by blast
qed

lemma mock_ke: "ke_of mock_capital_structure sample_inputs = Fin 0.0845"
  by (simp add: ke_of_def beta_of_def sample_inputs_def)

lemma mock_kd_after_tax:
  "kd_after_tax_of MOCK_MSFT_BUNDLE mock_capital_structure sample_inputs = Fin (123 / 5300)"
  by (simp add: kd_after_tax_of_def kd_pre_tax_of_def t_effective_of_def sample_inputs_def Let_def)

lemma mock_weights:
  "w_e_of mock_capital_structure = Fin (1575 / 1628)"
  "w_d_of mock_capital_structure = Fin (53 / 1628)"
  by (simp_all add: w_e_of_def w_d_of_def V_of_def)

text \<open>
  On the bundle's own capital structure the weights are 1575/1628 and 53/1628, the
  returned wacc is 0.0825 and the weighted average is strictly between the two costs.
\<close>

theorem wacc_weighted_average_witness:
  "CapitalStructure.equity_market_value_E mock_capital_structure = Fin 3150000000000
   \<and> CapitalStructure.debt_book_value_D mock_capital_structure = Fin 106000000000
   \<and> w_e_of mock_capital_structure = Fin (1575 / 1628)
   \<and> w_d_of mock_capital_structure = Fin (53 / 1628)
   \<and> ke_of mock_capital_structure sample_inputs = Fin 0.0845
   \<and> kd_after_tax_of MOCK_MSFT_BUNDLE mock_capital_structure sample_inputs = Fin (123 / 5300)
   \<and> (0::real) < 1575 / 1628 \<and> (1575::real) / 1628 \<le> 1
   \<and> (0::real) < 53 / 1628 \<and> (53::real) / 1628 \<le> 1
   \<and> (1575::real) / 1628 + 53 / 1628 = 1
   \<and> WACCResult.wacc (estimate_wacc MOCK_MSFT_BUNDLE mock_capital_structure sample_inputs)
       = Fin 0.0825
   \<and> (123::real) / 5300 < 0.0845 * (1575 / 1628) + 123 / 5300 * (53 / 1628)
   \<and> (0.0845::real) * (1575 / 1628) + 123 / 5300 * (53 / 1628) < 0.0845"
  using wacc_weighted_average
          [of mock_capital_structure "3150000000000" "106000000000" "1575 / 1628" "53 / 1628"
              sample_inputs "0.0845" MOCK_MSFT_BUNDLE "123 / 5300"]
        mock_ke mock_kd_after_tax mock_weights
  by (simp add: round_half_up_def)

lemma no_debt_simps [simp]:
  "CapitalStructure.equity_market_value_E no_debt_structure = Fin 3150000000000"
  "CapitalStructure.debt_book_value_D no_debt_structure = Fin 0"
  "CapitalStructure.beta no_debt_structure = Fin 0.89"
  by (simp_all add: no_debt_structure_def)

text \<open>
  C4 as stated fails where a weight is 0: with no debt and a cost-of-debt override the
  weights are 1 and 0, in [0,1] with sum 1, and the wacc equals the cost of equity, so
  it is not strictly below it. With no debt and no override the weights are the same,
  the cost of debt is infinite and the wacc is NaN, between nothing. And on the
  bundle's own capital structure the returned wacc, 0.0825, is the weighted average
  only up to rounding.
\<close>

theorem wacc_not_strictly_between_counterexample:
  "w_e_of no_debt_structure = Fin 1
   \<and> w_d_of no_debt_structure = Fin 0
   \<and> ke_of no_debt_structure kd_override_inputs = Fin 0.0845
   \<and> kd_after_tax_of MOCK_MSFT_BUNDLE no_debt_structure kd_override_inputs = Fin 0.041
   \<and> wacc_of MOCK_MSFT_BUNDLE no_debt_structure kd_override_inputs = Fin 0.0845
   \<and> WACCResult.wacc (estimate_wacc MOCK_MSFT_BUNDLE no_debt_structure kd_override_inputs)
       = Fin 0.0845
   \<and> \<not> (wacc_of MOCK_MSFT_BUNDLE no_debt_structure kd_override_inputs
          < ke_of no_debt_structure kd_override_inputs)
   \<and> \<not> (WACCResult.wacc (estimate_wacc MOCK_MSFT_BUNDLE no_debt_structure kd_override_inputs)
          < WACCResult.cost_of_equity_ke
              (estimate_wacc MOCK_MSFT_BUNDLE no_debt_structure kd_override_inputs))
   \<and> ke_of no_debt_structure sample_inputs = Fin 0.0845
   \<and> kd_after_tax_of MOCK_MSFT_BUNDLE no_debt_structure sample_inputs = PInf
   \<and> wacc_of MOCK_MSFT_BUNDLE no_debt_structure sample_inputs = NaN
   \<and> WACCResult.wacc (estimate_wacc MOCK_MSFT_BUNDLE no_debt_structure sample_inputs) = NaN
   \<and> wacc_of MOCK_MSFT_BUNDLE mock_capital_structure sample_inputs = Fin (53727 / 651200)
   \<and> WACCResult.wacc (estimate_wacc MOCK_MSFT_BUNDLE mock_capital_structure sample_inputs)
       = Fin 0.0825
   \<and> WACCResult.wacc (estimate_wacc MOCK_MSFT_BUNDLE mock_capital_structure sample_inputs)
       \<noteq> wacc_of MOCK_MSFT_BUNDLE mock_capital_structure sample_inputs"
  by (simp add: estimate_wacc_def wacc_of_def w_e_of_def w_d_of_def V_of_def ke_of_def
        beta_of_def kd_after_tax_of_def kd_pre_tax_of_def t_effective_of_def
        kd_override_inputs_def sample_inputs_def Let_def round_half_up_def)

lemma has_decimals_toFixed: "has_decimals d (Number_toFixed a d) = finite_number a"
proof (cases a)
  case (Fin x)
  have "of_int \<lfloor>- (round_half_up (- x) d * 10 ^ d)\<rfloor> = - (round_half_up (- x) d * 10 ^ d)"
    by (simp add: round_half_up_def)
  moreover have "of_int \<lfloor>round_half_up x d * 10 ^ d\<rfloor> = round_half_up x d * 10 ^ d"
    by (simp add: round_half_up_def)
  ultimately show ?thesis using Fin by simp
qed simp_all

text \<open>
  C5 (amended). The computed fields of the WACC result are rounded: cost_of_equity_ke
  and wacc to five decimals, tax_rate_effective, cost_of_debt_kd and the two weights to
  four decimals, each having that many decimals exactly when its unrounded value is
  finite. The fields rf, erp and beta_used and the two components are returned as they
  were supplied.
\<close>

theorem wacc_result_rounding:
  "WACCResult.cost_of_equity_ke (estimate_wacc b cs inputs) = Number_toFixed (ke_of cs inputs) 5
   \<and> has_decimals 5 (WACCResult.cost_of_equity_ke (estimate_wacc b cs inputs))
       = finite_number (ke_of cs inputs)
   \<and> WACCResult.wacc (estimate_wacc b cs inputs) = Number_toFixed (wacc_of b cs inputs) 5
   \<and> has_decimals 5 (WACCResult.wacc (estimate_wacc b cs inputs))
       = finite_number (wacc_of b cs inputs)
   \<and> WACCResult.tax_rate_effective (estimate_wacc b cs inputs)
       = Number_toFixed (t_effective_of b) 4
   \<and> has_decimals 4 (WACCResult.tax_rate_effective (estimate_wacc b cs inputs))
       = finite_number (t_effective_of b)
   \<and> WACCResult.cost_of_debt_kd (estimate_wacc b cs inputs)
       = Number_toFixed (kd_pre_tax_of b cs inputs) 4
   \<and> has_decimals 4 (WACCResult.cost_of_debt_kd (estimate_wacc b cs inputs))
       = finite_number (kd_pre_tax_of b cs inputs)
   \<and> Weights.w_e (WACCResult.weights (estimate_wacc b cs inputs))
       = Number_toFixed (w_e_of cs) 4
   \<and> has_decimals 4 (Weights.w_e (WACCResult.weights (estimate_wacc b cs inputs)))
       = finite_number (w_e_of cs)
   \<and> Weights.w_d (WACCResult.weights (estimate_wacc b cs inputs))
       = Number_toFixed (w_d_of cs) 4
   \<and> has_decimals 4 (Weights.w_d (WACCResult.weights (estimate_wacc b cs inputs)))
       = finite_number (w_d_of cs)
   \<and> WACCResult.rf (estimate_wacc b cs inputs) = UserInputs.rf inputs
   \<and> WACCResult.erp (estimate_wacc b cs inputs) = UserInputs.erp inputs
   \<and> WACCResult.beta_used (estimate_wacc b cs inputs) = beta_of cs inputs
   \<and> Components.equity_market_value_E (WACCResult.components (estimate_wacc b cs inputs))
       = CapitalStructure.equity_market_value_E cs
   \<and> Components.debt_book_value_D (WACCResult.components (estimate_wacc b cs inputs))
       = CapitalStructure.debt_book_value_D cs"
  for inputs
  by (simp add: estimate_wacc_def has_decimals_toFixed)

theorem wacc_result_rounding_witness:
  "WACCResult.cost_of_equity_ke (estimate_wacc MOCK_MSFT_BUNDLE mock_capital_structure sample_inputs)
     = Fin 0.0845
   \<and> WACCResult.wacc (estimate_wacc MOCK_MSFT_BUNDLE mock_capital_structure sample_inputs)
     = Fin 0.0825
   \<and> WACCResult.tax_rate_effective
        (estimate_wacc MOCK_MSFT_BUNDLE mock_capital_structure sample_inputs) = Fin 0.18
   \<and> WACCResult.cost_of_debt_kd
        (estimate_wacc MOCK_MSFT_BUNDLE mock_capital_structure sample_inputs) = Fin 0.0283
   \<and> Weights.w_e (WACCResult.weights
        (estimate_wacc MOCK_MSFT_BUNDLE mock_capital_structure sample_inputs)) = Fin 0.9674
   \<and> Weights.w_d (WACCResult.weights
        (estimate_wacc MOCK_MSFT_BUNDLE mock_capital_structure sample_inputs)) = Fin 0.0326
   \<and> WACCResult.rf (estimate_wacc MOCK_MSFT_BUNDLE mock_capital_structure unrounded_rf_inputs)
     = Fin 0.0412345678"
  using wacc_result_rounding [of MOCK_MSFT_BUNDLE mock_capital_structure sample_inputs]
        wacc_result_rounding [of MOCK_MSFT_BUNDLE mock_capital_structure unrounded_rf_inputs]
  by (simp add: wacc_of_def w_e_of_def w_d_of_def V_of_def ke_of_def
        beta_of_def kd_after_tax_of_def kd_pre_tax_of_def t_effective_of_def
        unrounded_rf_inputs_def sample_inputs_def Let_def round_half_up_def)

text \<open>
  C5 as stated fails on the echoed inputs: a risk-free rate with ten decimals comes
  back with its ten decimals.
\<close>

theorem rf_not_rounded_counterexample:
  "WACCResult.rf (estimate_wacc MOCK_MSFT_BUNDLE mock_capital_structure unrounded_rf_inputs)
     = Fin 0.0412345678
   \<and> \<not> has_decimals 5
        (WACCResult.rf (estimate_wacc MOCK_MSFT_BUNDLE mock_capital_structure unrounded_rf_inputs))
   \<and> \<not> has_decimals 4
        (WACCResult.rf (estimate_wacc MOCK_MSFT_BUNDLE mock_capital_structure unrounded_rf_inputs))"
  by (simp add: estimate_wacc_def unrounded_rf_inputs_def sample_inputs_def)

section \<open>The free cash flow proxy\<close>

lemma compute_fcf_proxy_empty:
  "Cashflow.history (Bundle.cashflow b) = [] \<Longrightarrow> compute_fcf_proxy b = Inl TypeError"
  by (simp add: compute_fcf_proxy_def)

text \<open>
  C6. For a non-empty cash-flow history the proxy builder returns a history of the same
  length whose entry at each index has the period, cfo and capex of the input entry at
  that index and fcf = cfo - capex, and fcf0_latest is the fcf of the last input entry.
\<close>

theorem fcf_proxy_keeps_order:
  assumes "Cashflow.history (Bundle.cashflow b) = hs" and "hs \<noteq> []"
  shows "\<exists>r. compute_fcf_proxy b = Inr r
    \<and> length (FCFData.fcf_history r) = length hs
    \<and> (\<forall>i < length hs.
          CashFlowEntry.period (FCFData.fcf_history r ! i) = CashFlowEntry.period (hs ! i)
        \<and> CashFlowEntry.cfo (FCFData.fcf_history r ! i) = CashFlowEntry.cfo (hs ! i)
        \<and> CashFlowEntry.capex (FCFData.fcf_history r ! i) = CashFlowEntry.capex (hs ! i)
        \<and> FCFEntry.fcf (FCFData.fcf_history r ! i)
            = CashFlowEntry.cfo (hs ! i) - CashFlowEntry.capex (hs ! i))
    \<and> FCFData.fcf0_latest r = CashFlowEntry.cfo (last hs) - CashFlowEntry.capex (last hs)"
proof -
  have len: "length hs - 1 < length hs"
    using assms(2) by (cases hs) simp_all
  have latest: "map with_fcf hs ! (length hs - 1) = with_fcf (last hs)"
    using len assms(2) by (simp add: last_conv_nth)
  show ?thesis
    using assms latest
    by (simp add: compute_fcf_proxy_def Let_def with_fcf_def)
qed

text \<open>
  With the bundle's history reversed, the later period comes first and fcf0_latest is
  the fcf of 2023, the last entry.
\<close>

theorem fcf_proxy_keeps_order_witness:
  "Cashflow.history (Bundle.cashflow reversed_bundle) =
     [\<lparr>CashFlowEntry.period = ''2024 (TTM)'', CashFlowEntry.cfo = Fin 110000000000,
       CashFlowEntry.capex = Fin 45000000000\<rparr>,
      \<lparr>CashFlowEntry.period = ''2023'', CashFlowEntry.cfo = Fin 87582000000,
       CashFlowEntry.capex = Fin 28107000000\<rparr>]
   \<and> (\<exists>r. compute_fcf_proxy reversed_bundle = Inr r
        \<and> length (FCFData.fcf_history r) = 2
        \<and> FCFEntry.fcf (FCFData.fcf_history r ! 0) = Fin 65000000000
        \<and> FCFEntry.fcf (FCFData.fcf_history r ! 1) = Fin 59475000000
        \<and> FCFData.fcf0_latest r = Fin 59475000000)"
proof -
  have h: "Cashflow.history (Bundle.cashflow reversed_bundle) =
     [\<lparr>CashFlowEntry.period = ''2024 (TTM)'', CashFlowEntry.cfo = Fin 110000000000,
       CashFlowEntry.capex = Fin 45000000000\<rparr>,
      \<lparr>CashFlowEntry.period = ''2023'', CashFlowEntry.cfo = Fin 87582000000,
       CashFlowEntry.capex = Fin 28107000000\<rparr>]"
    by (simp add: reversed_bundle_def MOCK_MSFT_BUNDLE_def)
  from fcf_proxy_keeps_order [OF h] obtain r where
    r: "compute_fcf_proxy reversed_bundle = Inr r"
       "length (FCFData.fcf_history r) = 2"
       "FCFEntry.fcf (FCFData.fcf_history r ! 0) = Fin 65000000000"
       "FCFEntry.fcf (FCFData.fcf_history r ! 1) = Fin 59475000000"
       "FCFData.fcf0_latest r = Fin 59475000000"
    by fastforce
  with h show ?thesis by blast
qed

section \<open>Scenarios and the sensitivity grid\<close>




text \<open>
  C7. The bull scenario is the DCF run at wacc max(0.01, base_wacc - 0.01) and growth
  base growth + 0.02, the bear scenario the run at wacc base_wacc + 0.01 and growth
  base growth - 0.02; terminal growth, years, net debt, shares and spot price are those
  of the base run.
\<close>

theorem scenario_inputs:
  "Scenarios.base (ScenarioSensitivity.scenarios
      (run_scenarios_and_sensitivity b f bw bi nd sh)) =
     run_fcff_dcf f bw (UserInputs.terminal_g bi) (UserInputs.forecast_years bi)
       (UserInputs.fcf_growth bi) nd sh (Some (Market.price (Bundle.market b)))
   \<and> Scenarios.bull (ScenarioSensitivity.scenarios
      (run_scenarios_and_sensitivity b f bw bi nd sh)) =
     run_fcff_dcf f (Math_max (Fin 0.01) (bw - Fin 0.01)) (UserInputs.terminal_g bi)
       (UserInputs.forecast_years bi) (UserInputs.fcf_growth bi + Fin 0.02) nd sh
       (Some (Market.price (Bundle.market b)))
   \<and> Scenarios.bear (ScenarioSensitivity.scenarios
      (run_scenarios_and_sensitivity b f bw bi nd sh)) =
     run_fcff_dcf f (bw + Fin 0.01) (UserInputs.terminal_g bi)
       (UserInputs.forecast_years bi) (UserInputs.fcf_growth bi - Fin 0.02) nd sh
       (Some (Market.price (Bundle.market b)))
   \<and> Math_max (Fin 0.01) (Fin x - Fin 0.01) = Fin (max 0.01 (x - 0.01))"
  by (simp add: run_scenarios_and_sensitivity_def Let_def)


text \<open>
  At a base wacc of 0.015 the bull run is floored at 0.01; its growth is 0.10 and the
  bear run has wacc 0.025 and growth 0.06.
\<close>

theorem scenario_inputs_witness:
  "Assumptions.wacc (DCFResult.assumptions (Scenarios.bull (ScenarioSensitivity.scenarios
      (run_scenarios_and_sensitivity MOCK_MSFT_BUNDLE (Fin 100) (Fin 0.015) sample_inputs
         (Fin 0) (Fin 100))))) = Fin 0.01
   \<and> Assumptions.fcf_growth (DCFResult.assumptions (Scenarios.bull
      (ScenarioSensitivity.scenarios
        (run_scenarios_and_sensitivity MOCK_MSFT_BUNDLE (Fin 100) (Fin 0.015) sample_inputs
           (Fin 0) (Fin 100))))) = Fin 0.10
   \<and> Assumptions.wacc (DCFResult.assumptions (Scenarios.bear (ScenarioSensitivity.scenarios
      (run_scenarios_and_sensitivity MOCK_MSFT_BUNDLE (Fin 100) (Fin 0.015) sample_inputs
         (Fin 0) (Fin 100))))) = Fin 0.025
   \<and> Assumptions.fcf_growth (DCFResult.assumptions (Scenarios.bear
      (ScenarioSensitivity.scenarios
        (run_scenarios_and_sensitivity MOCK_MSFT_BUNDLE (Fin 100) (Fin 0.015) sample_inputs
           (Fin 0) (Fin 100))))) = Fin 0.06"
  using scenario_inputs [of MOCK_MSFT_BUNDLE "Fin 100" "Fin 0.015" sample_inputs "Fin 0" "Fin 100"]
  by (simp add: run_fcff_dcf_def sample_inputs_def Let_def round_half_up_def
        split: prod.splits)


section \<open>The analyst context\<close>

text \<open>
  C9. The context's limitations are those of the capital structure, the WACC result,
  the FCF data and the base valuation, appended in this order, so their number is the
  sum of the four lengths; its warnings are those of the capital structure followed by
  those of the WACC result.
\<close>

theorem context_lists:
  "AnalystContext.limitations (build_context_json now i cs w fc sens) =
     CapitalStructure.limitations cs @ WACCResult.limitations w @ FCFData.limitations fc
       @ DCFResult.limitations (Scenarios.base (ScenarioSensitivity.scenarios sens))
   \<and> length (AnalystContext.limitations (build_context_json now i cs w fc sens)) =
     length (CapitalStructure.limitations cs) + length (WACCResult.limitations w)
       + length (FCFData.limitations fc)
       + length (DCFResult.limitations (Scenarios.base (ScenarioSensitivity.scenarios sens)))
   \<and> AnalystContext.warnings (build_context_json now i cs w fc sens) =
     CapitalStructure.warnings cs @ WACCResult.warnings w"
  by (simp add: build_context_json_def)

end
